theory Spec2Isabelle
  imports Main "HOL-Library.Word"
begin

section \<open>Bytes, errors and the external libraries\<close>

type_synonym byte = "8 word"
type_synonym bytes = "byte list"

text \<open>
  Go errors are values. \<open>Errorf\<close> is \<^verbatim>\<open>fmt.Errorf\<close> with a plain message,
  \<open>Wrapf m e\<close> is \<^verbatim>\<open>fmt.Errorf(m + ": %w", e)\<close>. A run-time panic (nil pointer
  dereference) is the value \<open>Panic\<close>. The remaining constructors are the errors of
  go-ethereum and of the context package that the signer passes on.
\<close>

datatype error =
    Panic
  | Errorf string
  | Wrapf string error
  | ErrInvalidSignatureLen
  | ErrRecoverFailed
  | ErrNotFound
  | DeadlineExceeded
  | ChainIDMismatch int int
  | LibError string

text \<open>Wrapping leaves a panic a panic: it is not an error value that Go code handles.\<close>

definition wrap :: "string \<Rightarrow> error \<Rightarrow> error" where
  "wrap m e = (if e = Panic then Panic else Wrapf m e)"

text \<open>Go strings are byte sequences; \<^verbatim>\<open>[]byte(s)\<close> reads them off.\<close>

definition bytesOf :: "string \<Rightarrow> bytes" where
  "bytesOf s = map (\<lambda>c. word_of_nat (of_char c)) s"

text \<open>\<^verbatim>\<open>strings.HasPrefix\<close> and \<^verbatim>\<open>strings.TrimPrefix\<close>.\<close>

definition HasPrefix :: "string \<Rightarrow> string \<Rightarrow> bool" where
  "HasPrefix s p = (take (length p) s = p)"

definition TrimPrefix :: "string \<Rightarrow> string \<Rightarrow> string" where
  "TrimPrefix s p = (if HasPrefix s p then drop (length p) s else s)"

text \<open>\<^verbatim>\<open>common.LeftPadBytes\<close>: a slice at least as long as \<open>l\<close> is returned as it is.\<close>

definition LeftPadBytes :: "bytes \<Rightarrow> nat \<Rightarrow> bytes" where
  "LeftPadBytes sl l =
     (if l \<le> length sl then sl else replicate (l - length sl) 0 @ sl)"

text \<open>
  \<^verbatim>\<open>math/big\<close>: an \<^verbatim>\<open>Int\<close> is an unbounded integer; \<^verbatim>\<open>Bytes()\<close> is the
  big-endian magnitude without leading zeros (the sign is dropped), and
  \<^verbatim>\<open>SetString(s, 10)\<close> accepts an optional sign followed by one or more decimal
  digits and nothing else.
\<close>

fun natBytes :: "nat \<Rightarrow> bytes" where
  "natBytes n = (if n = 0 then [] else natBytes (n div 256) @ [word_of_nat (n mod 256)])"

declare natBytes.simps [simp del]

definition BigBytes :: "int \<Rightarrow> bytes" where
  "BigBytes x = natBytes (nat \<bar>x\<bar>)"

definition isDigit :: "char \<Rightarrow> bool" where
  "isDigit c = (48 \<le> (of_char c :: nat) \<and> (of_char c :: nat) \<le> 57)"

definition scanDigits :: "string \<Rightarrow> nat option" where
  "scanDigits s =
     (if s \<noteq> [] \<and> list_all isDigit s
      then Some (foldl (\<lambda>a c. 10 * a + (of_char c - 48)) 0 s)
      else None)"

definition SetString10 :: "string \<Rightarrow> int option" where
  "SetString10 s =
     (case s of
        [] \<Rightarrow> None
      | c # r \<Rightarrow>
          if c = CHR ''-'' then map_option (\<lambda>n. - int n) (scanDigits r)
          else if c = CHR ''+'' then map_option int (scanDigits r)
          else map_option int (scanDigits s))"

text \<open>
  The cryptographic and hex-decoding functions of go-ethereum are not part of the
  repository; they are a parameter of the model. A public key is the byte string
  go-ethereum derives the address from.
\<close>

record cryptolib =
  Keccak256 :: "bytes \<Rightarrow> bytes"
  HexToAddress :: "string \<Rightarrow> bytes"
  Hex2Bytes :: "string \<Rightarrow> bytes"
  SigToPub :: "bytes \<Rightarrow> bytes \<Rightarrow> error + bytes"
  PubkeyToAddress :: "bytes \<Rightarrow> bytes"

section \<open>EIP-712 typed data\<close>

record Type =
  Name :: string
  Type :: string

type_synonym Types = "string \<rightharpoonup> Type list"

text \<open>\<open>ChainId\<close> is a \<^verbatim>\<open>*big.Int\<close>: \<open>None\<close> is the nil pointer.\<close>

record TypedDataDomain =
  DName :: string
  Version :: string
  ChainId :: "int option"
  VerifyingContract :: string

text \<open>
  The values an \<^verbatim>\<open>interface{}\<close> of a message holds. A \<^verbatim>\<open>float64\<close> is kept as the
  integer that the conversion \<^verbatim>\<open>int64(v)\<close> yields; \<open>VOther t\<close> is a value of any
  other Go type, \<open>t\<close> being the name \<^verbatim>\<open>%T\<close> prints.
\<close>

datatype val =
    VNil
  | VString string
  | VBytes bytes
  | VBigInt "int option"
  | VFloat64 int
  | VOther string

fun goType :: "val \<Rightarrow> string" where
  "goType VNil = ''<nil>''"
| "goType (VString _) = ''string''"
| "goType (VBytes _) = ''[]uint8''"
| "goType (VBigInt _) = ''*big.Int''"
| "goType (VFloat64 _) = ''float64''"
| "goType (VOther t) = t"

type_synonym Message = "string \<rightharpoonup> val"

record TypedData =
  Types :: Types
  PrimaryType :: string
  Domain :: TypedDataDomain
  Message :: Message

text \<open>The two kinds of \<open>data\<close> that \<open>hashStruct\<close> is called with.\<close>

datatype data = DDomain TypedDataDomain | DMessage Message

text \<open>Indexing a Go map: a missing key gives the zero value.\<close>

definition fieldsOf :: "Types \<Rightarrow> string \<Rightarrow> Type list" where
  "fieldsOf types primaryType = (case types primaryType of None \<Rightarrow> [] | Some fs \<Rightarrow> fs)"

definition lookupVal :: "Message \<Rightarrow> string \<Rightarrow> val" where
  "lookupVal v k = (case v k of None \<Rightarrow> VNil | Some x \<Rightarrow> x)"

subsection \<open>typeHash\<close>

text \<open>The loop of \<open>typeHash\<close> over the fields, \<open>i\<close> being the index and \<open>acc\<close> the builder.\<close>

fun writeFields :: "nat \<Rightarrow> Type list \<Rightarrow> string \<Rightarrow> string" where
  "writeFields i [] acc = acc"
| "writeFields i (field # fs) acc =
     writeFields (Suc i) fs
       ((if 0 < i then acc @ '','' else acc) @ Type field @ '' '' @ Name field)"

definition typeStr :: "Types \<Rightarrow> string \<Rightarrow> string" where
  "typeStr types primaryType =
     writeFields 0 (fieldsOf types primaryType) (primaryType @ ''('') @ '')''"

definition typeHash :: "cryptolib \<Rightarrow> Types \<Rightarrow> string \<Rightarrow> bytes" where
  "typeHash L types primaryType = Keccak256 L (bytesOf (typeStr types primaryType))"

text \<open>
  For comparison, the fields of a struct type as the specification writes them:
  \<open>type name\<close> for each field in declared order, separated by commas.
\<close>

fun joinFields :: "Type list \<Rightarrow> string" where
  "joinFields [] = []"
| "joinFields [f] = Type f @ '' '' @ Name f"
| "joinFields (f # g # fs) = Type f @ '' '' @ Name f @ '','' @ joinFields (g # fs)"

subsection \<open>encodeValue\<close>

definition encodeNumeric :: "val \<Rightarrow> error + bytes" where
  "encodeNumeric value =
     (case value of
        VString v \<Rightarrow>
          (case SetString10 v of
             None \<Rightarrow> Inl (Errorf (''failed to parse '' @ v @ '' as big.Int''))
           | Some n \<Rightarrow> Inr (LeftPadBytes (BigBytes n) 32))
      | VBigInt None \<Rightarrow> Inl Panic
      | VBigInt (Some v) \<Rightarrow> Inr (LeftPadBytes (BigBytes v) 32)
      | VFloat64 n \<Rightarrow> Inr (LeftPadBytes (BigBytes n) 32)
      | _ \<Rightarrow> Inl (Errorf (''expected numeric type, got '' @ goType value)))"

definition encodeValue :: "cryptolib \<Rightarrow> string \<Rightarrow> val \<Rightarrow> error + bytes" where
  "encodeValue L fieldType value =
     (if fieldType = ''address'' then
        (case value of
           VString addr \<Rightarrow> Inr (LeftPadBytes (HexToAddress L addr) 32)
         | _ \<Rightarrow> Inl (Errorf (''expected string for address, got '' @ goType value)))
      else if fieldType = ''string'' then
        (case value of
           VString str \<Rightarrow> Inr (Keccak256 L (bytesOf str))
         | _ \<Rightarrow> Inl (Errorf (''expected string, got '' @ goType value)))
      else if fieldType = ''bytes'' then
        (case value of
           VString v \<Rightarrow>
             if HasPrefix v ''0x'' then Inr (Keccak256 L (Hex2Bytes L (drop 2 v)))
             else Inr (Keccak256 L (bytesOf v))
         | VBytes v \<Rightarrow> Inr (Keccak256 L v)
         | _ \<Rightarrow> Inl (Errorf (''expected string or []byte for bytes, got '' @ goType value)))
      else if HasPrefix fieldType ''uint'' \<or> HasPrefix fieldType ''int'' then
        encodeNumeric value
      else Inl (Errorf (''unsupported type: '' @ fieldType)))"

subsection \<open>encodeData, hashStruct, HashTypedData\<close>

text \<open>The loop of \<open>encodeData\<close> over the fields of a message.\<close>

fun encodeFields :: "cryptolib \<Rightarrow> Type list \<Rightarrow> Message \<Rightarrow> bytes \<Rightarrow> error + bytes" where
  "encodeFields L [] v encoded = Inr encoded"
| "encodeFields L (field # fs) v encoded =
     (case encodeValue L (Type field) (lookupVal v (Name field)) of
        Inl err \<Rightarrow> Inl err
      | Inr fieldEncoded \<Rightarrow> encodeFields L fs v (encoded @ fieldEncoded))"

definition encodeData :: "cryptolib \<Rightarrow> Types \<Rightarrow> string \<Rightarrow> data \<Rightarrow> error + bytes" where
  "encodeData L types primaryType d =
     (let encoded = typeHash L types primaryType in
      case d of
        DDomain v \<Rightarrow>
          (case ChainId v of
             None \<Rightarrow> Inl Panic
           | Some c \<Rightarrow>
               Inr (encoded
                    @ Keccak256 L (bytesOf (DName v))
                    @ Keccak256 L (bytesOf (Version v))
                    @ LeftPadBytes (BigBytes c) 32
                    @ HexToAddress L (VerifyingContract v)))
      | DMessage v \<Rightarrow> encodeFields L (fieldsOf types primaryType) v encoded)"

definition hashStruct :: "cryptolib \<Rightarrow> Types \<Rightarrow> string \<Rightarrow> data \<Rightarrow> error + bytes" where
  "hashStruct L types primaryType d =
     (case encodeData L types primaryType d of
        Inl err \<Rightarrow> Inl err
      | Inr e \<Rightarrow> Inr (Keccak256 L e))"

definition HashTypedData :: "cryptolib \<Rightarrow> TypedData \<Rightarrow> error + (bytes \<times> string)" where
  "HashTypedData L typedData =
     (case hashStruct L (Types typedData) ''EIP712Domain'' (DDomain (Domain typedData)) of
        Inl err \<Rightarrow> Inl err
      | Inr domainSeparator \<Rightarrow>
          (case hashStruct L (Types typedData) (PrimaryType typedData)
                  (DMessage (Message typedData)) of
             Inl err \<Rightarrow> Inl err
           | Inr messageHash \<Rightarrow>
               Inr (Keccak256 L ([0x19, 0x01] @ domainSeparator @ messageHash),
                    PrimaryType typedData)))"

section \<open>VerifyTypedData\<close>

definition domainFields :: "Type list" where
  "domainFields =
     [\<lparr>Name = ''name'', Type = ''string''\<rparr>,
      \<lparr>Name = ''version'', Type = ''string''\<rparr>,
      \<lparr>Name = ''chainId'', Type = ''uint256''\<rparr>,
      \<lparr>Name = ''verifyingContract'', Type = ''address''\<rparr>]"

text \<open>
  The typed data that \<open>VerifyTypedData\<close> builds: the fixed domain type, then every
  custom type of the caller except one named \<open>EIP712Domain\<close>. The order in which the
  Go map is ranged over does not matter, its keys being distinct.
\<close>

definition buildTypedData ::
  "TypedDataDomain \<Rightarrow> Types \<Rightarrow> string \<Rightarrow> Message \<Rightarrow> TypedData" where
  "buildTypedData domain types primaryType message =
     \<lparr>Types = (\<lambda>typeName. if typeName = ''EIP712Domain'' then Some domainFields
                            else types typeName),
      PrimaryType = primaryType,
      Domain = domain,
      Message = message\<rparr>"

text \<open>The copy of the signature with its last byte lowered by 27 when it is 27 or more.\<close>

definition adjustV :: "bytes \<Rightarrow> bytes" where
  "adjustV sig =
     (if length sig = 65 \<and> 27 \<le> sig ! 64 then sig[64 := sig ! 64 - 27] else sig)"

definition VerifyTypedData ::
  "cryptolib \<Rightarrow> string \<Rightarrow> TypedDataDomain \<Rightarrow> Types \<Rightarrow> string \<Rightarrow> Message \<Rightarrow> bytes
     \<Rightarrow> error + bool" where
  "VerifyTypedData L address domain types primaryType message signature =
     (case HashTypedData L (buildTypedData domain types primaryType message) of
        Inl err \<Rightarrow> Inl (wrap ''failed to hash typed data'' err)
      | Inr (digest, _) \<Rightarrow>
          (case SigToPub L digest (adjustV signature) of
             Inl err \<Rightarrow> Inl (wrap ''failed to recover public key'' err)
           | Inr pubKey \<Rightarrow> Inr (PubkeyToAddress L pubKey = HexToAddress L address)))"

section \<open>The chain client\<close>

record Transaction =
  Nonce :: "64 word"
  To :: bytes
  Value :: int
  Gas :: "64 word"
  GasPrice :: int
  Data :: bytes

datatype CallMsg = CallMsg (From: bytes) (MsgTo: bytes) (MsgData: bytes)

datatype SignedTx = SignedTx (txOf: Transaction) (sigOf: bytes)

record Receipt =
  rStatus :: "64 word"
  rBlockNumber :: int
  rTxHash :: bytes

record TransactionReceipt =
  Status :: "64 word"
  BlockNumber :: "64 word"
  TxHash :: string

text \<open>
  What the RPC endpoint answers. The answer to a receipt query depends on when it is
  asked: time is counted in ticks of the one-second poll interval.
\<close>

record client =
  rpcNetworkID :: "error + int"
  rpcPendingNonceAt :: "bytes \<Rightarrow> error + 64 word"
  rpcSuggestGasPrice :: "error + int"
  rpcEstimateGas :: "CallMsg \<Rightarrow> error + 64 word"
  rpcSendTransaction :: "SignedTx \<Rightarrow> error option"
  rpcTransactionReceipt :: "nat \<Rightarrow> bytes \<Rightarrow> error + Receipt"

text \<open>The requests a call makes, in the order it makes them.\<close>

datatype request =
    ReqPendingNonceAt bytes
  | ReqSuggestGasPrice
  | ReqEstimateGas CallMsg
  | ReqSign bytes
  | ReqSendTransaction SignedTx
  | ReqTransactionReceipt bytes

text \<open>
  The functions of go-ethereum for ABIs, transactions and keys, a parameter of the
  model as well. \<open>TransactionHash\<close> is the hash of a transaction that has its data.
\<close>

record 'abi ethlib =
  Dial :: "string \<Rightarrow> error + client"
  AbiJSON :: "bytes \<Rightarrow> error + 'abi"
  Pack :: "'abi \<Rightarrow> string \<Rightarrow> val list \<Rightarrow> error + bytes"
  SignerHash :: "int \<Rightarrow> Transaction \<Rightarrow> bytes"
  WithSignature :: "int \<Rightarrow> Transaction \<Rightarrow> bytes \<Rightarrow> error + SignedTx"
  TxHashHex :: "SignedTx \<Rightarrow> string"
  HexToHash :: "string \<Rightarrow> bytes"
  HashHex :: "bytes \<Rightarrow> string"
  TransactionHash :: "Transaction \<Rightarrow> bytes"
  HexToECDSA :: "string \<Rightarrow> error + bytes"
  Sign :: "bytes \<Rightarrow> bytes \<Rightarrow> error + bytes"
  PublicKey :: "bytes \<Rightarrow> bytes"

type_synonym Signer = "bytes \<Rightarrow> error + bytes"

record EVMSigner =
  client :: client
  addresses :: "bytes list"
  chainID :: int
  signer :: Signer

record EVMSignerConfig =
  RpcURL :: string
  ChainID :: int
  PrivateKey :: string
  Signer :: "Signer option"
  Addresses :: "string list"

subsection \<open>NewEVMSigner\<close>

definition createPrivateKeySigner :: "'abi ethlib \<Rightarrow> bytes \<Rightarrow> Signer" where
  "createPrivateKeySigner E privateKey =
     (\<lambda>digest. case Sign E digest privateKey of
                  Inl err \<Rightarrow> Inl (wrap ''failed to sign digest'' err)
                | Inr sig \<Rightarrow> Inr sig)"

text \<open>\<^verbatim>\<open>Int64()\<close> of a \<^verbatim>\<open>big.Int\<close>: the low 64 bits, read as a signed number.\<close>

definition Int64 :: "int \<Rightarrow> int" where
  "Int64 x = sint (word_of_int x :: 64 word)"

definition NewEVMSigner ::
  "cryptolib \<Rightarrow> 'abi ethlib \<Rightarrow> EVMSignerConfig \<Rightarrow> error + EVMSigner" where
  "NewEVMSigner L E config =
     (if RpcURL config = [] then Inl (Errorf ''rpc URL is required'')
      else
        (case Dial E (RpcURL config) of
           Inl err \<Rightarrow> Inl (wrap ''failed to connect to RPC'' err)
         | Inr cl \<Rightarrow>
        (case rpcNetworkID cl of
           Inl err \<Rightarrow> Inl (wrap ''failed to get network ID'' err)
         | Inr cid \<Rightarrow>
        (if ChainID config \<noteq> 0 \<and> Int64 cid \<noteq> ChainID config
         then Inl (ChainIDMismatch (ChainID config) (Int64 cid))
         else
           (let addrs = map (HexToAddress L) (Addresses config) in
            case Signer config of
              Some cb \<Rightarrow>
                Inr \<lparr>client = cl, addresses = addrs, chainID = cid, signer = cb\<rparr>
            | None \<Rightarrow>
                if PrivateKey config \<noteq> [] then
                  (case HexToECDSA E (TrimPrefix (PrivateKey config) ''0x'') of
                     Inl err \<Rightarrow> Inl (wrap ''failed to parse private key'' err)
                   | Inr privateKey \<Rightarrow>
                       Inr \<lparr>client = cl,
                            addresses =
                              (if length addrs = 0
                               then addrs @ [PubkeyToAddress L (PublicKey E privateKey)]
                               else addrs),
                            chainID = cid,
                            signer = createPrivateKeySigner E privateKey\<rparr>)
                else Inl (Errorf ''either PrivateKey or SignerCallback must be provided''))))))"

subsection \<open>WriteContract and SendTransaction\<close>

text \<open>
  Both functions end with the same statements: nonce, gas price, gas estimate, the
  transaction, its signature, its submission. \<open>tr\<close> is the list of requests made so far.
\<close>

definition signAndSend ::
  "'abi ethlib \<Rightarrow> EVMSigner \<Rightarrow> bytes \<Rightarrow> bytes \<Rightarrow> bytes \<Rightarrow> request list
     \<Rightarrow> (error + string) \<times> request list" where
  "signAndSend E s fromAddr toAddr data tr =
     (let tr1 = tr @ [ReqPendingNonceAt fromAddr] in
      case rpcPendingNonceAt (client s) fromAddr of
        Inl err \<Rightarrow> (Inl (wrap ''failed to get nonce'' err), tr1)
      | Inr nonce \<Rightarrow>
     (let tr2 = tr1 @ [ReqSuggestGasPrice] in
      case rpcSuggestGasPrice (client s) of
        Inl err \<Rightarrow> (Inl (wrap ''failed to suggest gas price'' err), tr2)
      | Inr gasPrice \<Rightarrow>
     (let msg = CallMsg fromAddr toAddr data;
          tr3 = tr2 @ [ReqEstimateGas msg] in
      case rpcEstimateGas (client s) msg of
        Inl err \<Rightarrow> (Inl (wrap ''failed to estimate gas'' err), tr3)
      | Inr gasLimit \<Rightarrow>
     (let tx = \<lparr>Nonce = nonce, To = toAddr, Value = 0, Gas = gasLimit,
                GasPrice = gasPrice, Data = data\<rparr>;
          digest = SignerHash E (chainID s) tx;
          tr4 = tr3 @ [ReqSign digest] in
      case signer s digest of
        Inl err \<Rightarrow> (Inl (wrap ''failed to sign transaction'' err), tr4)
      | Inr sig \<Rightarrow>
     (case WithSignature E (chainID s) tx sig of
        Inl err \<Rightarrow> (Inl (wrap ''failed to apply signature'' err), tr4)
      | Inr signedTx \<Rightarrow>
     (let tr5 = tr4 @ [ReqSendTransaction signedTx] in
      case rpcSendTransaction (client s) signedTx of
        Some err \<Rightarrow> (Inl (wrap ''failed to send transaction'' err), tr5)
      | None \<Rightarrow> (Inr (TxHashHex E signedTx), tr5)))))))"

definition WriteContract ::
  "cryptolib \<Rightarrow> 'abi ethlib \<Rightarrow> EVMSigner \<Rightarrow> string \<Rightarrow> bytes \<Rightarrow> string \<Rightarrow> val list
     \<Rightarrow> request list \<Rightarrow> (error + string) \<times> request list" where
  "WriteContract L E s address abiJSON functionName args tr =
     (if length (addresses s) = 0 then (Inl (Errorf ''no signer addresses available''), tr)
      else
        (let contractAddr = HexToAddress L address;
             fromAddr = addresses s ! 0 in
         case AbiJSON E abiJSON of
           Inl err \<Rightarrow> (Inl (wrap ''failed to parse ABI'' err), tr)
         | Inr parsedABI \<Rightarrow>
        (case Pack E parsedABI functionName args of
           Inl err \<Rightarrow> (Inl (wrap ''failed to pack function call'' err), tr)
         | Inr data \<Rightarrow> signAndSend E s fromAddr contractAddr data tr)))"

definition SendTransaction ::
  "cryptolib \<Rightarrow> 'abi ethlib \<Rightarrow> EVMSigner \<Rightarrow> string \<Rightarrow> bytes \<Rightarrow> request list
     \<Rightarrow> (error + string) \<times> request list" where
  "SendTransaction L E s to data tr =
     (if length (addresses s) = 0 then (Inl (Errorf ''no signer addresses available''), tr)
      else
        (let toAddr = HexToAddress L to;
             fromAddr = addresses s ! 0 in
         signAndSend E s fromAddr toAddr data tr))"

subsection \<open>WaitForTransactionReceipt\<close>

text \<open>
  A \<^verbatim>\<open>*types.Transaction\<close> points to a transaction whose data may be missing:
  \<open>None\<close> is the zero value \<^verbatim>\<open>&ethTypes.Transaction{}\<close>, with nil inner data.
  \<^verbatim>\<open>tx.Hash()\<close> reads the inner data, and on the zero value that is a nil
  dereference.
\<close>

definition Hash :: "'abi ethlib \<Rightarrow> Transaction option \<Rightarrow> error + bytes" where
  "Hash E tx = (case tx of None \<Rightarrow> Inl Panic | Some t \<Rightarrow> Inr (TransactionHash E t))"

text \<open>
  \<^verbatim>\<open>bind.WaitMined(ctx, client, tx)\<close> of go-ethereum takes \<^verbatim>\<open>tx.Hash()\<close>, then
  asks for the receipt of that hash, returns it when the query succeeds, and otherwise
  waits for the next tick or for the context to be done. The context is the number of
  ticks left until its deadline; \<open>now\<close> is the time of the query, and the time at which
  the wait ended is returned as well. \<open>tr\<close> is the list of requests made so far.
\<close>

fun pollReceipt ::
  "client \<Rightarrow> nat \<Rightarrow> nat \<Rightarrow> bytes \<Rightarrow> request list
     \<Rightarrow> ((error + Receipt) \<times> nat) \<times> request list" where
  "pollReceipt c now 0 h tr =
     (case rpcTransactionReceipt c now h of
        Inr receipt \<Rightarrow> ((Inr receipt, now), tr @ [ReqTransactionReceipt h])
      | Inl _ \<Rightarrow> ((Inl DeadlineExceeded, now), tr @ [ReqTransactionReceipt h]))"
| "pollReceipt c now (Suc ctx) h tr =
     (case rpcTransactionReceipt c now h of
        Inr receipt \<Rightarrow> ((Inr receipt, now), tr @ [ReqTransactionReceipt h])
      | Inl _ \<Rightarrow> pollReceipt c (Suc now) ctx h (tr @ [ReqTransactionReceipt h]))"

definition WaitMined ::
  "'abi ethlib \<Rightarrow> client \<Rightarrow> nat \<Rightarrow> Transaction option \<Rightarrow> request list
     \<Rightarrow> ((error + Receipt) \<times> nat) \<times> request list" where
  "WaitMined E c ctx tx tr =
     (case Hash E tx of
        Inl err \<Rightarrow> ((Inl err, 0), tr)
      | Inr h \<Rightarrow> pollReceipt c 0 ctx h tr)"

definition WaitForTransactionReceipt ::
  "'abi ethlib \<Rightarrow> EVMSigner \<Rightarrow> nat \<Rightarrow> string \<Rightarrow> request list
     \<Rightarrow> (error + TransactionReceipt) \<times> request list" where
  "WaitForTransactionReceipt E s ctx txHash tr =
     (let hash = HexToHash E txHash in
      case WaitMined E (client s) ctx None tr of
        ((Inl err, _), tr1) \<Rightarrow> (Inl (wrap ''failed to wait for transaction'' err), tr1)
      | ((Inr _, now), tr1) \<Rightarrow>
          (case rpcTransactionReceipt (client s) now hash of
             Inl err \<Rightarrow>
               (Inl (wrap ''failed to get transaction receipt'' err),
                tr1 @ [ReqTransactionReceipt hash])
           | Inr receipt \<Rightarrow>
               (Inr \<lparr>Status = rStatus receipt,
                     BlockNumber = word_of_int (rBlockNumber receipt),
                     TxHash = HashHex E (rTxHash receipt)\<rparr>,
                tr1 @ [ReqTransactionReceipt hash])))"

section \<open>An instance of the parameters\<close>

text \<open>
  To run the model on examples the library parameters need values. \<open>exLib\<close> is a
  stand-in with the shape of the real functions (a 32-byte hash, 20-byte addresses, a
  recovery that rejects signatures that are not 65 bytes long), not their cryptography.
\<close>

definition exHash :: "bytes \<Rightarrow> bytes" where
  "exHash bs = take 32 (bs @ replicate 32 0)"

definition exLib :: cryptolib where
  "exLib =
     \<lparr>Keccak256 = exHash,
      HexToAddress = (\<lambda>s. take 20 (bytesOf s @ replicate 20 0)),
      Hex2Bytes = bytesOf,
      SigToPub = (\<lambda>h sg. if length sg \<noteq> 65 then Inl ErrInvalidSignatureLen
                           else if 4 \<le> sg ! 64 then Inl ErrRecoverFailed
                           else Inr (take 64 sg)),
      PubkeyToAddress = take 20\<rparr>"

definition exDomain :: TypedDataDomain where
  "exDomain = \<lparr>DName = ''Test'', Version = ''1'', ChainId = Some 1,
               VerifyingContract = ''0x0000000000000000000000000000000000000001''\<rparr>"

definition exTypes :: Types where
  "exTypes = [''Message'' \<mapsto> [\<lparr>Name = ''content'', Type = ''string''\<rparr>]]"

definition exMessage :: Message where
  "exMessage = [''content'' \<mapsto> VString ''hi'']"

text \<open>A struct type that refers to another one.\<close>

definition mailTypes :: Types where
  "mailTypes = [''Mail'' \<mapsto> [\<lparr>Name = ''from'', Type = ''Person''\<rparr>],
                ''Person'' \<mapsto> [\<lparr>Name = ''name'', Type = ''string''\<rparr>]]"

text \<open>
  An endpoint that reports nonce 5, gas price 1000000000 and gas estimate 21000, accepts
  every transaction, and has the transaction with hash \<open>[0xAB]\<close> mined from the start;
  no other transaction is ever mined.
\<close>

definition exReceipt :: Receipt where
  "exReceipt = \<lparr>rStatus = 1, rBlockNumber = 7, rTxHash = [0xAB]\<rparr>"

definition exClient :: client where
  "exClient =
     \<lparr>rpcNetworkID = Inr 84532,
      rpcPendingNonceAt = (\<lambda>a. Inr 5),
      rpcSuggestGasPrice = Inr 1000000000,
      rpcEstimateGas = (\<lambda>m. Inr 21000),
      rpcSendTransaction = (\<lambda>t. None),
      rpcTransactionReceipt =
        (\<lambda>now h. if h = [0xAB] then Inr exReceipt else Inl ErrNotFound)\<rparr>"

definition exEth :: "bytes ethlib" where
  "exEth =
     \<lparr>Dial = (\<lambda>url. Inr exClient),
      AbiJSON = Inr,
      Pack = (\<lambda>abi fn args. Inr (bytesOf fn)),
      SignerHash = (\<lambda>cid tx. exHash (Data tx)),
      WithSignature = (\<lambda>cid tx sg. if length sg = 65 then Inr (SignedTx tx sg)
                                   else Inl ErrInvalidSignatureLen),
      TxHashHex = (\<lambda>stx. ''0xhash''),
      HexToHash = (\<lambda>s. if s = ''0xab'' then [0xAB] else bytesOf s),
      HashHex = (\<lambda>h. ''0xab''),
      TransactionHash = (\<lambda>tx. exHash (Data tx)),
      HexToECDSA = (\<lambda>s. if s = [] then Inl (LibError ''invalid key'') else Inr (bytesOf s)),
      Sign = (\<lambda>digest key. Inr (replicate 65 0)),
      PublicKey = (\<lambda>key. key)\<rparr>"

definition exCallback :: Signer where
  "exCallback = (\<lambda>digest. Inr (replicate 65 1))"

definition exSigner :: EVMSigner where
  "exSigner = \<lparr>client = exClient, addresses = [replicate 20 9], chainID = 84532,
               signer = exCallback\<rparr>"

definition exSignerNoAddr :: EVMSigner where
  "exSignerNoAddr =
     \<lparr>client = exClient, addresses = [], chainID = 84532, signer = exCallback\<rparr>"

text \<open>A configuration with both a callback and a private key, and one with the key only.\<close>

definition exConfig :: EVMSignerConfig where
  "exConfig = \<lparr>RpcURL = ''https://sepolia.base.org'', ChainID = 84532,
               PrivateKey = ''0xkey'', Signer = Some exCallback, Addresses = []\<rparr>"

definition exKeyConfig :: EVMSignerConfig where
  "exKeyConfig = \<lparr>RpcURL = ''https://sepolia.base.org'', ChainID = 84532,
                  PrivateKey = ''0xkey'', Signer = None, Addresses = []\<rparr>"

text \<open>A domain with a chain id only, and a caller's domain type that declares just that.\<close>

definition chainOnlyDomain :: TypedDataDomain where
  "chainOnlyDomain = \<lparr>DName = [], Version = [], ChainId = Some 1, VerifyingContract = []\<rparr>"

definition chainOnlyTypes :: Types where
  "chainOnlyTypes = [''EIP712Domain'' \<mapsto> [\<lparr>Name = ''chainId'', Type = ''uint256''\<rparr>]]"

section \<open>The type string\<close>

lemma writeFields_pos:
  "0 < i \<Longrightarrow>
     writeFields i fs acc = acc @ concat (map (\<lambda>f. '','' @ Type f @ '' '' @ Name f) fs)"
  by (induction fs arbitrary: i acc) simp_all

lemma joinFields_Cons:
  "joinFields (f # fs) =
     Type f @ '' '' @ Name f @ concat (map (\<lambda>f. '','' @ Type f @ '' '' @ Name f) fs)"
  by (induction fs arbitrary: f) simp_all

lemma writeFields_zero: "writeFields 0 fs acc = acc @ joinFields fs"
proof (cases fs)
  case Nil
  then show ?thesis by simp
next
  case (Cons f fs')
  then show ?thesis by (simp add: writeFields_pos joinFields_Cons)
qed

lemma mail_str: "typeStr mailTypes ''Mail'' = ''Mail(Person from)''"
  by (simp add: typeStr_def mailTypes_def fieldsOf_def)

lemma person_str: "typeStr mailTypes ''Person'' = ''Person(string name)''"
  by (simp add: typeStr_def mailTypes_def fieldsOf_def)

text \<open>
  C1, as stated, fails: \<open>Mail\<close> has a field of the struct type \<open>Person\<close>, and the
  canonical string of \<open>Person\<close> occurs nowhere in the string that \<open>typeHash\<close> hashes
  for \<open>Mail\<close>.
\<close>

theorem typeHash_referenced_counterexample:
  "\<not> (\<exists>pre post. typeStr mailTypes ''Mail'' = pre @ typeStr mailTypes ''Person'' @ post)"
proof
  assume "\<exists>pre post. typeStr mailTypes ''Mail'' = pre @ typeStr mailTypes ''Person'' @ post"
  then obtain pre post
    where "typeStr mailTypes ''Mail'' = pre @ typeStr mailTypes ''Person'' @ post"
    by blast
  then have "length (typeStr mailTypes ''Mail'') =
             length (pre @ typeStr mailTypes ''Person'' @ post)"
    by simp
  then show False by (simp add: mail_str person_str)
qed

text \<open>
  C1, amended: for every set of struct-type declarations and every primary type name,
  \<open>typeHash\<close> hashes exactly the primary type's own canonical string, the name followed
  by its fields in declared order between brackets; no string of a referenced struct
  type is appended.
\<close>

theorem typeHash_own_string_only:
  "typeHash L types primaryType =
     Keccak256 L
       (bytesOf (primaryType @ ''('' @ joinFields (fieldsOf types primaryType) @ '')''))"
  by (simp add: typeHash_def typeStr_def writeFields_zero)

theorem typeHash_own_string_only_witness:
  "typeHash exLib mailTypes ''Mail'' = Keccak256 exLib (bytesOf ''Mail(Person from)'')"
  using typeHash_own_string_only [of exLib mailTypes "''Mail''"]
  by (simp add: mailTypes_def fieldsOf_def)

text \<open>
  A field of a struct type cannot be encoded at all: \<open>encodeValue\<close> knows addresses,
  strings, bytes and the integer types, and rejects every other type name.
\<close>

lemma encodeValue_unsupported:
  assumes "fieldType \<noteq> ''address''" "fieldType \<noteq> ''string''" "fieldType \<noteq> ''bytes''"
    and "\<not> HasPrefix fieldType ''uint''" "\<not> HasPrefix fieldType ''int''"
  shows "encodeValue L fieldType v = Inl (Errorf (''unsupported type: '' @ fieldType))"
  using assms by (simp add: encodeValue_def)

section \<open>Verification of a signature\<close>

lemma byte_facts:
  "(27::byte) \<le> 27" "(27::byte) \<le> 28" "\<not> (27::byte) \<le> 0" "\<not> (27::byte) \<le> 1"
  "(28::byte) - 27 = 1" "(1::byte) + 27 = 28"
  by (simp_all add: word_le_nat_alt)

lemma adjustV_high:
  "length rs = 64 \<Longrightarrow> v = 0 \<or> v = 1 \<Longrightarrow> adjustV (rs @ [v + 27]) = rs @ [v]"
  by (auto simp add: adjustV_def nth_append list_update_append byte_facts)

lemma adjustV_low:
  "length rs = 64 \<Longrightarrow> v = 0 \<or> v = 1 \<Longrightarrow> adjustV (rs @ [v]) = rs @ [v]"
  by (auto simp add: adjustV_def nth_append list_update_append byte_facts)

lemma adjustV_length: "length (adjustV sig) = length sig"
  by (simp add: adjustV_def)

lemma exLib_simps:
  "Keccak256 exLib = exHash"
  "SigToPub exLib h sg = (if length sg \<noteq> 65 then Inl ErrInvalidSignatureLen
                           else if 4 \<le> sg ! 64 then Inl ErrRecoverFailed
                           else Inr (take 64 sg))"
  "PubkeyToAddress exLib = take 20"
  "HexToAddress exLib s = take 20 (bytesOf s @ replicate 20 0)"
  by (simp_all add: exLib_def)

lemma exHash_length: "length (exHash bs) = 32"
  by (simp add: exHash_def)

lemma ex_domain_hash:
  "\<exists>h. hashStruct exLib (Types (buildTypedData exDomain exTypes ''Message'' exMessage))
         ''EIP712Domain'' (DDomain exDomain) = Inr h"
  by (simp add: hashStruct_def encodeData_def exDomain_def)

lemma ex_message_hash:
  "\<exists>h. hashStruct exLib (Types (buildTypedData exDomain exTypes ''Message'' exMessage))
         ''Message'' (DMessage exMessage) = Inr h"
  by (simp add: hashStruct_def encodeData_def buildTypedData_def exTypes_def exMessage_def
      fieldsOf_def encodeValue_def lookupVal_def)

lemma ex_built:
  "Domain (buildTypedData exDomain exTypes ''Message'' exMessage) = exDomain"
  "PrimaryType (buildTypedData exDomain exTypes ''Message'' exMessage) = ''Message''"
  "Message (buildTypedData exDomain exTypes ''Message'' exMessage) = exMessage"
  by (simp_all add: buildTypedData_def)

lemma ex_hash:
  "\<exists>d. HashTypedData exLib (buildTypedData exDomain exTypes ''Message'' exMessage) =
         Inr (d, ''Message'')"
proof -
  obtain h1 where h1:
    "hashStruct exLib (Types (buildTypedData exDomain exTypes ''Message'' exMessage))
       ''EIP712Domain'' (DDomain exDomain) = Inr h1"
    using ex_domain_hash by blast
  obtain h2 where h2:
    "hashStruct exLib (Types (buildTypedData exDomain exTypes ''Message'' exMessage))
       ''Message'' (DMessage exMessage) = Inr h2"
    using ex_message_hash by blast
  show ?thesis
    by (simp add: HashTypedData_def ex_built h1 h2)
qed

text \<open>
  C4: take two 65-byte signatures with the same r and s, one with v in {0, 1} and the
  other with the same v raised by 27. \<open>VerifyTypedData\<close> gives the same result for
  both; and when the typed data hashes to a digest and the recovery succeeds on r, s
  and the v in {0, 1}, both signatures are accepted: each call returns the verdict for
  the one address recovered from that public key.
\<close>

theorem VerifyTypedData_v_normalization:
  assumes "length rs = 64" and "v = 0 \<or> v = 1"
  shows "VerifyTypedData L address domain types primaryType message (rs @ [v + 27]) =
         VerifyTypedData L address domain types primaryType message (rs @ [v])
       \<and> (\<forall>digest pt pubKey.
            HashTypedData L (buildTypedData domain types primaryType message) = Inr (digest, pt)
          \<and> SigToPub L digest (rs @ [v]) = Inr pubKey
          \<longrightarrow> VerifyTypedData L address domain types primaryType message (rs @ [v + 27]) =
                Inr (PubkeyToAddress L pubKey = HexToAddress L address)
            \<and> VerifyTypedData L address domain types primaryType message (rs @ [v]) =
                Inr (PubkeyToAddress L pubKey = HexToAddress L address))"
proof -
  have hi: "adjustV (rs @ [v + 27]) = rs @ [v]"
    using assms by (rule adjustV_high)
  have lo: "adjustV (rs @ [v]) = rs @ [v]"
    using assms by (rule adjustV_low)
  show ?thesis
    unfolding VerifyTypedData_def hi lo by simp
qed

theorem VerifyTypedData_v_normalization_witness:
  "length (replicate 64 (48::byte)) = 64
   \<and> VerifyTypedData exLib ''00000000000000000000'' exDomain exTypes ''Message'' exMessage
       (replicate 64 48 @ [28]) = Inr True
   \<and> VerifyTypedData exLib ''00000000000000000000'' exDomain exTypes ''Message'' exMessage
       (replicate 64 48 @ [1]) = Inr True"
proof -
  have len: "length (replicate 64 (48::byte)) = 64" by simp
  have v: "(1::byte) = 0 \<or> (1::byte) = 1" by simp
  obtain d where d:
    "HashTypedData exLib (buildTypedData exDomain exTypes ''Message'' exMessage) =
       Inr (d, ''Message'')"
    using ex_hash by blast
  have lt: "\<not> (4::byte) \<le> 1" by (simp add: word_le_nat_alt)
  have rec: "SigToPub exLib d (replicate 64 48 @ [1]) = Inr (replicate 64 48)"
    by (simp add: exLib_simps nth_append lt)
  have addr: "PubkeyToAddress exLib (replicate 64 48) =
              HexToAddress exLib ''00000000000000000000''"
    by (simp add: exLib_simps bytesOf_def numeral_eq_Suc)
  show ?thesis
    using VerifyTypedData_v_normalization [OF len v, of exLib "''00000000000000000000''"
        exDomain exTypes "''Message''" exMessage] d rec addr
    by simp
qed

text \<open>
  C5, as stated, fails: the typed data is hashed before the signature is looked at, so
  for a message that lacks the field of its type the 3-byte signature is answered with
  the error of the hashing, not with an invalid-signature error.
\<close>

theorem VerifyTypedData_bad_length_counterexample:
  "VerifyTypedData exLib ''0x01'' exDomain exTypes ''Message'' Map.empty [1, 2, 3] =
     Inl (Wrapf ''failed to hash typed data'' (Errorf ''expected string, got <nil>''))"
  by (simp add: VerifyTypedData_def HashTypedData_def hashStruct_def encodeData_def
      buildTypedData_def exDomain_def exTypes_def fieldsOf_def lookupVal_def encodeValue_def
      wrap_def)

text \<open>
  C5, amended: when the library's recovery rejects every signature that is not 65
  bytes long, \<open>VerifyTypedData\<close> never succeeds on such a signature. When the typed
  data hashes to a digest it fails with the invalid-signature-length error of the
  recovery (the last byte is read only when the length is 65); when the hashing
  returns an error, that error is returned instead.
\<close>

theorem VerifyTypedData_bad_length:
  assumes len: "length signature \<noteq> 65"
    and lib: "\<forall>h sg. length sg \<noteq> 65 \<longrightarrow> SigToPub L h sg = Inl ErrInvalidSignatureLen"
  shows "(\<forall>ok. VerifyTypedData L address domain types primaryType message signature \<noteq> Inr ok)
       \<and> (\<forall>digest pt.
            HashTypedData L (buildTypedData domain types primaryType message) = Inr (digest, pt)
            \<longrightarrow> VerifyTypedData L address domain types primaryType message signature =
                  Inl (Wrapf ''failed to recover public key'' ErrInvalidSignatureLen))
       \<and> (\<forall>err.
            HashTypedData L (buildTypedData domain types primaryType message) = Inl err
          \<and> err \<noteq> Panic
            \<longrightarrow> VerifyTypedData L address domain types primaryType message signature =
                  Inl (Wrapf ''failed to hash typed data'' err))"
proof -
  have "length (adjustV signature) \<noteq> 65"
    using len by (simp add: adjustV_length)
  then have rec: "SigToPub L h (adjustV signature) = Inl ErrInvalidSignatureLen" for h
    using lib by blast
  show ?thesis
    by (simp add: VerifyTypedData_def rec wrap_def split: sum.splits prod.splits)
qed

theorem VerifyTypedData_bad_length_witness:
  "length [1, 2, 3 :: byte] \<noteq> 65
   \<and> SigToPub exLib [] [1, 2, 3] = Inl ErrInvalidSignatureLen
   \<and> (\<exists>digest. HashTypedData exLib (buildTypedData exDomain exTypes ''Message'' exMessage) =
                  Inr (digest, ''Message''))
   \<and> VerifyTypedData exLib ''0x01'' exDomain exTypes ''Message'' exMessage [1, 2, 3] =
       Inl (Wrapf ''failed to recover public key'' ErrInvalidSignatureLen)
   \<and> HashTypedData exLib (buildTypedData exDomain exTypes ''Message'' Map.empty) =
       Inl (Errorf ''expected string, got <nil>'')
   \<and> VerifyTypedData exLib ''0x02'' exDomain exTypes ''Message'' Map.empty [1, 2, 3] =
       Inl (Wrapf ''failed to hash typed data'' (Errorf ''expected string, got <nil>''))"
proof -
  have len: "length [1, 2, 3 :: byte] \<noteq> 65" by simp
  have bad: "HashTypedData exLib (buildTypedData exDomain exTypes ''Message'' Map.empty) =
       Inl (Errorf ''expected string, got <nil>'')"
    by (simp add: HashTypedData_def hashStruct_def encodeData_def buildTypedData_def
        exDomain_def exTypes_def fieldsOf_def lookupVal_def encodeValue_def)
  have lib: "\<forall>h sg. length sg \<noteq> 65 \<longrightarrow> SigToPub exLib h sg = Inl ErrInvalidSignatureLen"
    by (simp add: exLib_simps)
  obtain d where d:
    "HashTypedData exLib (buildTypedData exDomain exTypes ''Message'' exMessage) =
       Inr (d, ''Message'')"
    using ex_hash by blast
  show ?thesis
    using VerifyTypedData_bad_length [OF len lib, of "''0x01''" exDomain exTypes "''Message''"
        exMessage]
      VerifyTypedData_bad_length [OF len lib, of "''0x02''" exDomain exTypes "''Message''"
        Map.empty] len d bad
    by (simp add: exLib_simps)
qed

text \<open>
  A domain without a chain id is dereferenced while it is hashed: the call panics,
  whatever the signature is.
\<close>

lemma VerifyTypedData_nil_chainId:
  "ChainId domain = None \<Longrightarrow>
     VerifyTypedData L address domain types primaryType message signature = Inl Panic"
  by (simp add: VerifyTypedData_def HashTypedData_def hashStruct_def encodeData_def
      buildTypedData_def wrap_def)

section \<open>The digest\<close>

text \<open>
  C7: when the domain and the message of the primary type hash to \<open>domainHash\<close> and
  \<open>structHash\<close>, \<open>HashTypedData\<close> returns the hash of the bytes 0x19, 0x01, the
  domain hash and the struct hash; with a 32-byte hash function it is 32 bytes long.
\<close>

theorem HashTypedData_digest:
  assumes dom: "hashStruct L (Types td) ''EIP712Domain'' (DDomain (Domain td)) = Inr domainHash"
    and msg: "hashStruct L (Types td) (PrimaryType td) (DMessage (Message td)) = Inr structHash"
    and len: "\<forall>bs. length (Keccak256 L bs) = 32"
  shows "HashTypedData L td =
           Inr (Keccak256 L ([0x19, 0x01] @ domainHash @ structHash), PrimaryType td)
       \<and> length (Keccak256 L ([0x19, 0x01] @ domainHash @ structHash)) = 32"
  using assms by (simp add: HashTypedData_def)

theorem HashTypedData_digest_witness:
  "\<exists>domainHash structHash.
     hashStruct exLib (Types (buildTypedData exDomain exTypes ''Message'' exMessage))
       ''EIP712Domain'' (DDomain exDomain) = Inr domainHash
   \<and> hashStruct exLib (Types (buildTypedData exDomain exTypes ''Message'' exMessage))
       ''Message'' (DMessage exMessage) = Inr structHash
   \<and> (\<forall>bs. length (Keccak256 exLib bs) = 32)
   \<and> HashTypedData exLib (buildTypedData exDomain exTypes ''Message'' exMessage) =
       Inr (Keccak256 exLib ([0x19, 0x01] @ domainHash @ structHash), ''Message'')
   \<and> length (Keccak256 exLib ([0x19, 0x01] @ domainHash @ structHash)) = 32"
proof -
  obtain h1 where h1:
    "hashStruct exLib (Types (buildTypedData exDomain exTypes ''Message'' exMessage))
       ''EIP712Domain'' (DDomain exDomain) = Inr h1"
    using ex_domain_hash by blast
  obtain h2 where h2:
    "hashStruct exLib (Types (buildTypedData exDomain exTypes ''Message'' exMessage))
       ''Message'' (DMessage exMessage) = Inr h2"
    using ex_message_hash by blast
  have len: "\<forall>bs. length (Keccak256 exLib bs) = 32"
    by (simp add: exLib_simps exHash_length)
  have "HashTypedData exLib (buildTypedData exDomain exTypes ''Message'' exMessage) =
          Inr (Keccak256 exLib ([0x19, 0x01] @ h1 @ h2), ''Message'')
        \<and> length (Keccak256 exLib ([0x19, 0x01] @ h1 @ h2)) = 32"
    using HashTypedData_digest [of exLib "buildTypedData exDomain exTypes ''Message'' exMessage"
        h1 h2] h1 h2 len
    by (simp add: ex_built)
  then show ?thesis using h1 h2 len by blast
qed

section \<open>The domain\<close>

lemma domain_type_str:
  "typeStr (Types (buildTypedData domain types primaryType message)) ''EIP712Domain'' =
     ''EIP712Domain(string name,string version,uint256 chainId,address verifyingContract)''"
  by (simp add: typeStr_def buildTypedData_def fieldsOf_def domainFields_def)

text \<open>
  C3, as stated, fails: for a domain that has a chain id only, and a caller whose
  domain type declares the chain id only, \<open>VerifyTypedData\<close> still hashes the domain
  under the type with all four fields.
\<close>

theorem domain_fields_counterexample:
  "typeStr chainOnlyTypes ''EIP712Domain'' = ''EIP712Domain(uint256 chainId)''
   \<and> typeStr (Types (buildTypedData chainOnlyDomain chainOnlyTypes ''Message'' Map.empty))
        ''EIP712Domain'' =
       ''EIP712Domain(string name,string version,uint256 chainId,address verifyingContract)''"
  by (simp add: domain_type_str) (simp add: typeStr_def chainOnlyTypes_def fieldsOf_def)

text \<open>
  C3, amended: for every typed-data domain with a chain id, all four domain fields
  take part whether they are empty or not: \<open>VerifyTypedData\<close> uses the domain type
  with the fields name, version, chainId and verifyingContract, and the domain hash
  encodes these four in that order, an empty name or version as the hash of the empty
  string.
\<close>

theorem domain_all_four_fields:
  assumes "ChainId domain = Some c"
  shows "typeStr (Types (buildTypedData domain types primaryType message)) ''EIP712Domain'' =
           ''EIP712Domain(string name,string version,uint256 chainId,address verifyingContract)''
       \<and> hashStruct L (Types (buildTypedData domain types primaryType message)) ''EIP712Domain''
           (DDomain domain) =
           Inr (Keccak256 L
             (Keccak256 L (bytesOf
                ''EIP712Domain(string name,string version,uint256 chainId,address verifyingContract)'')
              @ Keccak256 L (bytesOf (DName domain))
              @ Keccak256 L (bytesOf (Version domain))
              @ LeftPadBytes (BigBytes c) 32
              @ HexToAddress L (VerifyingContract domain)))"
  using assms
  by (simp add: domain_type_str hashStruct_def encodeData_def typeHash_def)

theorem domain_all_four_fields_witness:
  "ChainId chainOnlyDomain = Some 1
   \<and> hashStruct exLib (Types (buildTypedData chainOnlyDomain chainOnlyTypes ''Message'' Map.empty))
         ''EIP712Domain'' (DDomain chainOnlyDomain) =
       Inr (Keccak256 exLib
             (Keccak256 exLib (bytesOf
                ''EIP712Domain(string name,string version,uint256 chainId,address verifyingContract)'')
              @ Keccak256 exLib (bytesOf [])
              @ Keccak256 exLib (bytesOf [])
              @ LeftPadBytes (BigBytes 1) 32
              @ HexToAddress exLib []))"
proof -
  have c: "ChainId chainOnlyDomain = Some 1" by (simp add: chainOnlyDomain_def)
  have f: "DName chainOnlyDomain = []" "Version chainOnlyDomain = []"
    "VerifyingContract chainOnlyDomain = []"
    by (simp_all add: chainOnlyDomain_def)
  show ?thesis
    using domain_all_four_fields [OF c, of chainOnlyTypes "''Message''" Map.empty exLib] c
    by (simp add: f)
qed

section \<open>Integers\<close>

lemma natBytes_5: "natBytes 5 = [5]"
  by (simp add: natBytes.simps)

text \<open>
  C6, as stated, fails: for the field type \<open>uint256\<close> the decimal string \<open>-5\<close> and
  the big integer -5 are both encoded, without an error, as the 32-byte word of 5.
\<close>

theorem encodeValue_negative_counterexample:
  "encodeValue exLib ''uint256'' (VString ''-5'') = Inr (replicate 31 0 @ [5])
   \<and> encodeValue exLib ''uint256'' (VBigInt (Some (- 5))) = Inr (replicate 31 0 @ [5])"
  by (simp add: encodeValue_def encodeNumeric_def HasPrefix_def SetString10_def scanDigits_def
      isDigit_def BigBytes_def natBytes_5 LeftPadBytes_def)

lemma numeric_not_others:
  "HasPrefix fieldType ''uint'' \<Longrightarrow>
     fieldType \<noteq> ''address'' \<and> fieldType \<noteq> ''string'' \<and> fieldType \<noteq> ''bytes''"
  by (auto simp add: HasPrefix_def)

text \<open>
  C6, amended: for every uintN-typed field, \<open>encodeValue\<close> does not reject a negative
  value. A negative big integer, and a decimal string with a leading minus sign, are
  encoded without error as the big-endian magnitude left-padded to 32 bytes: the same
  bytes as for the value without its sign.
\<close>

theorem encodeValue_uint_magnitude:
  assumes "HasPrefix fieldType ''uint''"
  shows "encodeValue L fieldType (VBigInt (Some n)) = Inr (LeftPadBytes (natBytes (nat \<bar>n\<bar>)) 32)
       \<and> encodeValue L fieldType (VBigInt (Some (- n))) = encodeValue L fieldType (VBigInt (Some n))
       \<and> (\<forall>k. scanDigits ds = Some k \<longrightarrow>
            encodeValue L fieldType (VString (CHR ''-'' # ds)) = Inr (LeftPadBytes (natBytes k) 32)
          \<and> encodeValue L fieldType (VString (CHR ''-'' # ds)) =
              encodeValue L fieldType (VString ds))"
proof -
  have d: "scanDigits ds = Some k \<Longrightarrow> ds \<noteq> [] \<and> hd ds \<noteq> CHR ''-'' \<and> hd ds \<noteq> CHR ''+''" for k
    by (cases ds) (auto simp add: scanDigits_def isDigit_def split: if_splits)
  have s: "scanDigits ds = Some k \<Longrightarrow> SetString10 ds = Some (int k)" for k
    using d [of k] by (cases ds) (auto simp add: SetString10_def)
  show ?thesis
    using assms numeric_not_others [OF assms] s
    by (auto simp add: encodeValue_def encodeNumeric_def BigBytes_def SetString10_def)
qed

theorem encodeValue_uint_magnitude_witness:
  "HasPrefix ''uint256'' ''uint''
   \<and> scanDigits ''5'' = Some 5
   \<and> encodeValue exLib ''uint256'' (VBigInt (Some (- 5))) = Inr (LeftPadBytes (natBytes 5) 32)
   \<and> encodeValue exLib ''uint256'' (VString ''-5'') = Inr (LeftPadBytes (natBytes 5) 32)
   \<and> encodeValue exLib ''uint256'' (VString ''-5'') = encodeValue exLib ''uint256'' (VString ''5'')"
proof -
  have p: "HasPrefix ''uint256'' ''uint''" by (simp add: HasPrefix_def)
  have s: "scanDigits ''5'' = Some 5" by (simp add: scanDigits_def isDigit_def)
  have "encodeValue exLib ''uint256'' (VBigInt (Some (- 5))) = Inr (LeftPadBytes (natBytes 5) 32)
      \<and> encodeValue exLib ''uint256'' (VString ''-5'') = Inr (LeftPadBytes (natBytes 5) 32)
      \<and> encodeValue exLib ''uint256'' (VString ''-5'') =
          encodeValue exLib ''uint256'' (VString ''5'')"
    using encodeValue_uint_magnitude [OF p, of exLib "- 5" "''5''"] s by auto
  then show ?thesis using p s by blast
qed

section \<open>Construction of the signer\<close>

text \<open>
  C9: when \<open>NewEVMSigner\<close> succeeds on a configuration with a callback, the signer
  signs with that callback, its addresses are the configured ones and nothing else,
  and the private key plays no part (any other key gives the same signer). An address
  that was not configured can only come from the private key, and then there was no
  callback and no configured address.
\<close>

theorem NewEVMSigner_callback_precedence:
  assumes ok: "NewEVMSigner L E config = Inr s"
  shows "(\<forall>cb. Signer config = Some cb \<longrightarrow>
            signer s = cb
          \<and> addresses s = map (HexToAddress L) (Addresses config)
          \<and> NewEVMSigner L E (config\<lparr>PrivateKey := pk\<rparr>) = Inr s)
       \<and> (addresses s \<noteq> map (HexToAddress L) (Addresses config) \<longrightarrow>
            Signer config = None \<and> Addresses config = []
          \<and> (\<exists>privateKey.
                HexToECDSA E (TrimPrefix (PrivateKey config) ''0x'') = Inr privateKey
              \<and> addresses s = [PubkeyToAddress L (PublicKey E privateKey)]))"
  using ok
  by (auto simp add: NewEVMSigner_def Let_def split: if_splits sum.splits option.splits)

theorem NewEVMSigner_callback_precedence_witness:
  "NewEVMSigner exLib exEth exConfig =
     Inr \<lparr>client = exClient, addresses = [], chainID = 84532, signer = exCallback\<rparr>
   \<and> Signer exConfig = Some exCallback
   \<and> NewEVMSigner exLib exEth (exConfig\<lparr>PrivateKey := []\<rparr>) = NewEVMSigner exLib exEth exConfig
   \<and> NewEVMSigner exLib exEth exKeyConfig =
       Inr \<lparr>client = exClient,
            addresses = [PubkeyToAddress exLib (PublicKey exEth (bytesOf ''key''))],
            chainID = 84532, signer = createPrivateKeySigner exEth (bytesOf ''key'')\<rparr>
   \<and> Signer exKeyConfig = None \<and> Addresses exKeyConfig = []"
proof -
  have ok: "NewEVMSigner exLib exEth exConfig =
     Inr \<lparr>client = exClient, addresses = [], chainID = 84532, signer = exCallback\<rparr>"
    by (simp add: NewEVMSigner_def exConfig_def exEth_def exClient_def Int64_def)
  have cb: "Signer exConfig = Some exCallback" by (simp add: exConfig_def)
  have ok2: "NewEVMSigner exLib exEth exKeyConfig =
       Inr \<lparr>client = exClient,
            addresses = [PubkeyToAddress exLib (PublicKey exEth (bytesOf ''key''))],
            chainID = 84532, signer = createPrivateKeySigner exEth (bytesOf ''key'')\<rparr>"
    by (simp add: NewEVMSigner_def exKeyConfig_def exEth_def exClient_def Int64_def
        TrimPrefix_def HasPrefix_def)
  have ne: "addresses \<lparr>client = exClient,
            addresses = [PubkeyToAddress exLib (PublicKey exEth (bytesOf ''key''))],
            chainID = 84532, signer = createPrivateKeySigner exEth (bytesOf ''key'')\<rparr>
        \<noteq> map (HexToAddress exLib) (Addresses exKeyConfig)"
    by (simp add: exKeyConfig_def)
  show ?thesis
    using NewEVMSigner_callback_precedence [OF ok, of "[]"]
      NewEVMSigner_callback_precedence [OF ok2, of "[]"] ok cb ok2 ne
    by simp
qed

text \<open>A signer built from a callback and no configured address has no address.\<close>

lemma callback_without_addresses:
  "NewEVMSigner L E config = Inr s \<Longrightarrow> Signer config = Some cb \<Longrightarrow> Addresses config = []
     \<Longrightarrow> addresses s = []"
  by (auto simp add: NewEVMSigner_def Let_def split: if_splits sum.splits)

section \<open>Sending a transaction\<close>

text \<open>
  C10: on a signer without addresses, \<open>WriteContract\<close> and \<open>SendTransaction\<close> fail
  with an error and make no request: no nonce, no gas price, no gas estimate, no
  signature, no submission.
\<close>

theorem no_addresses_no_requests:
  assumes "addresses s = []"
  shows "WriteContract L E s address abiJSON functionName args tr =
           (Inl (Errorf ''no signer addresses available''), tr)
       \<and> SendTransaction L E s to data tr =
           (Inl (Errorf ''no signer addresses available''), tr)"
  using assms by (simp add: WriteContract_def SendTransaction_def)

theorem no_addresses_no_requests_witness:
  "addresses exSignerNoAddr = []
   \<and> WriteContract exLib exEth exSignerNoAddr ''0x01'' [] ''transfer'' [] [] =
       (Inl (Errorf ''no signer addresses available''), [])
   \<and> SendTransaction exLib exEth exSignerNoAddr ''0x01'' [] [] =
       (Inl (Errorf ''no signer addresses available''), [])"
proof -
  have a: "addresses exSignerNoAddr = []" by (simp add: exSignerNoAddr_def)
  show ?thesis
    using no_addresses_no_requests [OF a, of exLib exEth "''0x01''" "[]" "''transfer''" "[]" "[]"
        "''0x01''" "[]"] a
    by simp
qed

text \<open>
  C8: against an endpoint that reports the pending nonce 5, the gas price 1000000000
  and the gas estimate 21000, \<open>WriteContract\<close> asks for these three, then has the
  digest of the transaction with exactly these values signed (to the contract, value
  0, the packed call as data), and makes at most one more request, the submission.
  When signing and submission succeed it returns the hash of the signed transaction
  right after the submission: no receipt is asked for.
\<close>

theorem WriteContract_builds_transaction:
  assumes addr: "addresses s \<noteq> []"
    and abi: "AbiJSON E abiJSON = Inr parsedABI"
    and pack: "Pack E parsedABI functionName args = Inr data"
    and nonce: "rpcPendingNonceAt (client s) (addresses s ! 0) = Inr 5"
    and price: "rpcSuggestGasPrice (client s) = Inr 1000000000"
    and gas: "rpcEstimateGas (client s)
                (CallMsg (addresses s ! 0) (HexToAddress L address) data) = Inr 21000"
    and tx: "tx = \<lparr>Nonce = 5, To = HexToAddress L address, Value = 0, Gas = 21000,
                    GasPrice = 1000000000, Data = data\<rparr>"
    and reqs: "reqs = [ReqPendingNonceAt (addresses s ! 0), ReqSuggestGasPrice,
                       ReqEstimateGas (CallMsg (addresses s ! 0) (HexToAddress L address) data),
                       ReqSign (SignerHash E (chainID s) tx)]"
  shows "(\<exists>res rest.
            WriteContract L E s address abiJSON functionName args tr = (res, tr @ reqs @ rest)
          \<and> (rest = [] \<or> (\<exists>signedTx. rest = [ReqSendTransaction signedTx])))
       \<and> (\<forall>sig signedTx.
            signer s (SignerHash E (chainID s) tx) = Inr sig
          \<and> WithSignature E (chainID s) tx sig = Inr signedTx
          \<and> rpcSendTransaction (client s) signedTx = None
          \<longrightarrow> WriteContract L E s address abiJSON functionName args tr =
                (Inr (TxHashHex E signedTx), tr @ reqs @ [ReqSendTransaction signedTx]))"
proof -
  have sas: "WriteContract L E s address abiJSON functionName args tr =
             signAndSend E s (addresses s ! 0) (HexToAddress L address) data tr"
    using addr abi pack by (simp add: WriteContract_def)
  show ?thesis
    unfolding sas
    by (auto simp add: signAndSend_def Let_def nonce price gas tx reqs
        split: sum.splits option.splits)
qed

theorem WriteContract_builds_transaction_witness:
  "addresses exSigner \<noteq> []
   \<and> rpcPendingNonceAt (client exSigner) (addresses exSigner ! 0) = Inr 5
   \<and> rpcSuggestGasPrice (client exSigner) = Inr 1000000000
   \<and> WriteContract exLib exEth exSigner ''0x01'' [] ''transfer'' [] [] =
       (Inr ''0xhash'',
        [ReqPendingNonceAt (replicate 20 9), ReqSuggestGasPrice,
         ReqEstimateGas
           (CallMsg (replicate 20 9) (HexToAddress exLib ''0x01'') (bytesOf ''transfer'')),
         ReqSign (SignerHash exEth 84532
            \<lparr>Nonce = 5, To = HexToAddress exLib ''0x01'', Value = 0, Gas = 21000,
              GasPrice = 1000000000, Data = bytesOf ''transfer''\<rparr>),
         ReqSendTransaction (SignedTx
            \<lparr>Nonce = 5, To = HexToAddress exLib ''0x01'', Value = 0, Gas = 21000,
              GasPrice = 1000000000, Data = bytesOf ''transfer''\<rparr> (replicate 65 1))])"
proof -
  have addr: "addresses exSigner \<noteq> []" by (simp add: exSigner_def)
  have abi: "AbiJSON exEth [] = Inr []" by (simp add: exEth_def)
  have pack: "Pack exEth [] ''transfer'' [] = Inr (bytesOf ''transfer'')"
    by (simp add: exEth_def)
  have nonce: "rpcPendingNonceAt (client exSigner) (addresses exSigner ! 0) = Inr 5"
    by (simp add: exSigner_def exClient_def)
  have price: "rpcSuggestGasPrice (client exSigner) = Inr 1000000000"
    by (simp add: exSigner_def exClient_def)
  have gas: "rpcEstimateGas (client exSigner)
      (CallMsg (addresses exSigner ! 0) (HexToAddress exLib ''0x01'') (bytesOf ''transfer'')) =
      Inr 21000"
    by (simp add: exSigner_def exClient_def)
  have sg: "signer exSigner d = Inr (replicate 65 1)" for d
    by (simp add: exSigner_def exCallback_def)
  have ws: "WithSignature exEth c t (replicate 65 1) = Inr (SignedTx t (replicate 65 1))" for c t
    by (simp add: exEth_def)
  have snd: "rpcSendTransaction (client exSigner) t = None" for t
    by (simp add: exSigner_def exClient_def)
  have hx: "TxHashHex exEth t = ''0xhash''" for t by (simp add: exEth_def)
  have a0: "addresses exSigner ! 0 = replicate 20 9" "chainID exSigner = 84532"
    by (simp_all add: exSigner_def)
  show ?thesis
    using WriteContract_builds_transaction [OF addr abi pack nonce price gas refl refl, of "[]"]
      addr nonce price
    by (simp add: sg ws snd hx a0)
qed

section \<open>Waiting for a receipt\<close>

text \<open>
  On a transaction that has its data, the wait asks for the receipt of that
  transaction and returns it as soon as it is there.
\<close>

lemma WaitMined_mined:
  assumes "rpcTransactionReceipt c 0 (TransactionHash E t) = Inr receipt"
  shows "WaitMined E c ctx (Some t) tr =
           ((Inr receipt, 0), tr @ [ReqTransactionReceipt (TransactionHash E t)])"
  using assms by (cases ctx) (simp_all add: WaitMined_def Hash_def)

text \<open>
  \<open>WaitForTransactionReceipt\<close> hands the zero-value transaction to the wait, not the
  transaction named by \<open>txHash\<close>: whatever the hash, the deadline and the chain, the
  call panics before it has made a request.
\<close>

lemma WaitForTransactionReceipt_panics:
  "WaitForTransactionReceipt E s ctx txHash tr = (Inl Panic, tr)"
  by (simp add: WaitForTransactionReceipt_def WaitMined_def Hash_def wrap_def)

text \<open>
  C2 says that a transaction mined before the deadline has its receipt returned. The
  code does otherwise: the transaction \<open>0xab\<close> is mined from the start, and the call
  with a deadline three ticks away panics without having asked for a receipt.
\<close>

theorem WaitForTransactionReceipt_mined_panics:
  "rpcTransactionReceipt (client exSigner) 0 (HexToHash exEth ''0xab'') = Inr exReceipt
   \<and> WaitForTransactionReceipt exEth exSigner 3 ''0xab'' [] = (Inl Panic, [])"
  by (simp add: WaitForTransactionReceipt_panics) (simp add: exSigner_def exClient_def exEth_def)

end
